theory Spec2Isabelle
  imports Main "HOL-Library.Word"
begin

unbundle bit_operations_syntax

section \<open>Data model\<close>

text \<open>
  The two debug tools \<^verbatim>\<open>virtual_led_board.py\<close> (the device responder) and
  \<^verbatim>\<open>packet_interceptor.py\<close> (the intercepting relay) are embedded below.
  A Python \<^verbatim>\<open>bytes\<close> value is a list of 8-bit words, an address is the pair
  of host and port that \<^verbatim>\<open>recvfrom\<close> returns, and \<^verbatim>\<open>datetime.now()\<close>
  is a number of microseconds supplied by the environment.
\<close>

type_synonym byte = "8 word"
type_synonym bytes = "byte list"
type_synonym address = "string \<times> nat"
type_synonym timestamp = int

text \<open>The Python exceptions that the embedded code can meet.\<close>

datatype exn = IndexError | ValueError | AttributeError | OSError | UnboundLocalError
  | RuntimeError

text \<open>
  A \<^verbatim>\<open>print\<close> of the per-datagram code is one constructor of \<open>line\<close>,
  carrying the values that the format string interpolates (the text itself and the number
  formatting are not modelled). A run of informational prints at start-up or shutdown is one
  \<open>Banner\<close>.
\<close>

datatype line =
    PacketHeader nat timestamp "int option"
  | SourceAddress string nat
  | DataLength nat
  | EmptyPacket
  | ProtocolCommand byte
  | HeartbeatCommand
  | LedDataCommand
  | ConfigCommand
  | ConnectionCommand
  | UnknownCommand byte
  | HexDumpLine nat bytes
  | LedPacketTooShort
  | ByteOffset nat
  | LedDataLength nat
  | ColorAnalysis
  | GrbCount nat
  | GrbLed nat byte byte byte
  | GrbwCount nat
  | GrbwLed nat byte byte byte byte
  | RawDataHeader nat
  | RawHex bytes
  | RawAscii bytes
  | HeartbeatSent
  | HeartbeatFailed exn
  | AckSent
  | AckFailed exn
  | ConnectionSent
  | ConnectionFailed exn
  | PacketTooShort
  | Forwarded
  | Separator
  | PacketError exn
  | ReceiveError exn
  | StartFailed exn
  | NoLocalIp
  | MdnsFailed exn
  | MdnsPublished
  | MdnsPublishFailed
  | MdnsDisabled
  | MdnsUnregistered
  | MdnsUnregisterFailed exn
  | BoardStopped
  | Banner string

text \<open>
  What a procedure does to the outside world, in order: a line printed, a datagram that
  a socket accepted for sending, a thread started.
\<close>

datatype event = Print line | SendTo bytes address | ThreadStart string

text \<open>
  A procedure that returns nothing yields the events it produced and, when it was left by
  an exception, that exception.
\<close>

type_synonym outcome = "event list \<times> exn option"

definition emit :: "event list \<Rightarrow> outcome" where
  "emit es = (es, None)"

definition raise_exn :: "exn \<Rightarrow> outcome" where
  "raise_exn e = ([], Some e)"

text \<open>Sequential composition: the second statement runs only if the first returned.\<close>

definition and_then :: "outcome \<Rightarrow> outcome \<Rightarrow> outcome" where
  "and_then p q = (case p of
       (es, Some e) \<Rightarrow> (es, Some e)
     | (es, None) \<Rightarrow> (es @ fst q, snd q))"

text \<open>\<^verbatim>\<open>try: body  except Exception as e: handler(e)\<close>\<close>

definition try_except :: "outcome \<Rightarrow> (exn \<Rightarrow> outcome) \<Rightarrow> outcome" where
  "try_except body handler = (case body of
       (es, Some e) \<Rightarrow> and_then (es, None) (handler e)
     | (es, None) \<Rightarrow> (es, None))"

text \<open>\<^verbatim>\<open>for i in <list>: body(i)\<close>\<close>

fun for_each :: "nat list \<Rightarrow> (nat \<Rightarrow> outcome) \<Rightarrow> outcome" where
  "for_each [] body = emit []"
| "for_each (i # rest) body = and_then (body i) (for_each rest body)"

text \<open>\<^verbatim>\<open>xs[i]\<close> for \<open>i \<ge> 0\<close>, raising IndexError out of range, then the rest.\<close>

definition getitem :: "bytes \<Rightarrow> nat \<Rightarrow> (byte \<Rightarrow> outcome) \<Rightarrow> outcome" where
  "getitem xs i k = (if i < length xs then k (xs ! i) else raise_exn IndexError)"

text \<open>\<^verbatim>\<open>xs[a:b]\<close> for \<open>0 \<le> a\<close>, \<open>0 \<le> b\<close>: slices never raise.\<close>

definition slice :: "bytes \<Rightarrow> nat \<Rightarrow> nat \<Rightarrow> bytes" where
  "slice xs a b = take (b - a) (drop a xs)"

text \<open>\<^verbatim>\<open>range(0, n, 16)\<close>\<close>

definition range16 :: "nat \<Rightarrow> nat list" where
  "range16 n = map (\<lambda>k. k * 16) [0 ..< (n + 15) div 16]"

text \<open>The datagrams that the events hand to the network, in order.\<close>

fun sent :: "event list \<Rightarrow> (bytes \<times> address) list" where
  "sent [] = []"
| "sent (SendTo d a # es) = (d, a) # sent es"
| "sent (_ # es) = sent es"

section \<open>Sockets\<close>

text \<open>
  A UDP socket object: open or closed, and the address it is bound to, if any.
  \<^verbatim>\<open>recvfrom(bufsize)\<close> on a datagram socket returns at most \<open>bufsize\<close> bytes of
  the datagram and discards the rest (the POSIX behaviour of \<^verbatim>\<open>recvfrom\<close>).
\<close>

record sock =
  sock_open :: bool
  sock_bound :: "address option"

definition recvfrom :: "nat \<Rightarrow> bytes \<Rightarrow> bytes" where
  "recvfrom bufsize datagram = take bufsize datagram"

text \<open>
  \<^verbatim>\<open>s.sendto(data, addr)\<close> through an attribute that may be None. The flag
  \<open>refused\<close> is the environment: the operating system refusing the send (OSError).
\<close>

definition sendto :: "bool \<Rightarrow> sock option \<Rightarrow> bytes \<Rightarrow> address \<Rightarrow> outcome" where
  "sendto refused s data addr = (case s of
       None \<Rightarrow> raise_exn AttributeError
     | Some so \<Rightarrow> if \<not> sock_open so \<or> refused then raise_exn OSError
                 else emit [SendTo data addr])"

text \<open>What a blocking \<^verbatim>\<open>recvfrom\<close> can come back with.\<close>

datatype recv = Datagram bytes address | Timeout | RecvFails exn

section \<open>The intercepting relay: \<^verbatim>\<open>PacketInterceptor\<close>\<close>

record interceptor =
  target_ip :: string
  target_port :: nat
  listen_port :: nat
  running :: bool
  packet_count :: nat

text \<open>\<^verbatim>\<open>PacketInterceptor.__init__\<close>\<close>

definition init_interceptor :: "string \<Rightarrow> nat \<Rightarrow> nat \<Rightarrow> interceptor" where
  "init_interceptor ip tp lp =
     \<lparr> target_ip = ip, target_port = tp, listen_port = lp, running = False,
       packet_count = 0 \<rparr>"

text \<open>
  The activation of \<^verbatim>\<open>start_interceptor\<close>: the object and the two sockets, which
  are local variables of the method (None while a local is not yet assigned).
\<close>

record relay_frame =
  self :: interceptor
  listen_sock :: "sock option"
  forward_sock :: "sock option"

definition analyze_led_data :: "bytes \<Rightarrow> outcome" where
  "analyze_led_data led_data =
     (let data_len = length led_data in
      and_then
        (if data_len mod 3 = 0 then
           (let led_count_grb = data_len div 3 in
            and_then (emit [Print (GrbCount led_count_grb)])
              (for_each [0 ..< min 5 led_count_grb]
                 (\<lambda>i. let offset = i * 3 in
                    getitem led_data offset (\<lambda>g.
                    getitem led_data (offset + 1) (\<lambda>r.
                    getitem led_data (offset + 2) (\<lambda>b.
                      emit [Print (GrbLed (i + 1) g r b)]))))))
         else emit [])
        (if data_len mod 4 = 0 then
           (let led_count_grbw = data_len div 4 in
            and_then (emit [Print (GrbwCount led_count_grbw)])
              (for_each [0 ..< min 5 led_count_grbw]
                 (\<lambda>i. let offset = i * 4 in
                    getitem led_data offset (\<lambda>g.
                    getitem led_data (offset + 1) (\<lambda>r.
                    getitem led_data (offset + 2) (\<lambda>b.
                    getitem led_data (offset + 3) (\<lambda>w.
                      emit [Print (GrbwLed (i + 1) g r b w)])))))))
         else emit []))"

text \<open>
  \<^verbatim>\<open>analyze_packet(data, addr)\<close>; \<open>now\<close> is \<^verbatim>\<open>datetime.now()\<close>. The
  header line has no interval here.
\<close>

definition analyze_packet :: "timestamp \<Rightarrow> interceptor \<Rightarrow> bytes \<Rightarrow> address \<Rightarrow> outcome" where
  "analyze_packet now i data addr =
     and_then
       (emit [Print (PacketHeader (packet_count i) now None),
              Print (SourceAddress (fst addr) (snd addr)),
              Print (DataLength (length data))])
       (if length data \<ge> 3 then
          getitem data 0 (\<lambda>protocol. getitem data 1 (\<lambda>hi. getitem data 2 (\<lambda>lo.
            let offset = push_bit 8 (unat hi) OR unat lo;
                led_data_len = length data - 3
            in
              and_then
                (emit [Print (ProtocolCommand protocol), Print (ByteOffset offset),
                       Print (LedDataLength led_data_len)])
             (and_then
                (if led_data_len > 0 then analyze_led_data (drop 3 data) else emit [])
                (emit [Print (RawDataHeader (min 32 (length data))),
                       Print (RawHex (slice data 0 (min 32 (length data)))),
                       Print (RawAscii (slice data 0 (min 32 (length data))))])))))
        else emit [Print PacketTooShort])"

text \<open>
  The \<^verbatim>\<open>finally\<close> block of \<^verbatim>\<open>start_interceptor\<close>: both closes sit in one
  \<^verbatim>\<open>try\<close> whose bare \<^verbatim>\<open>except\<close> passes, so an unassigned local ends it.
\<close>

definition start_interceptor_finally :: "relay_frame \<Rightarrow> relay_frame" where
  "start_interceptor_finally fr =
     (case listen_sock fr of
        None \<Rightarrow> fr
      | Some l \<Rightarrow>
          (let fr1 = fr\<lparr>listen_sock := Some (l\<lparr>sock_open := False\<rparr>)\<rparr> in
           case forward_sock fr1 of
             None \<Rightarrow> fr1
           | Some f \<Rightarrow> fr1\<lparr>forward_sock := Some (f\<lparr>sock_open := False\<rparr>)\<rparr>))"

text \<open>
  \<^verbatim>\<open>start_interceptor\<close> up to its loop. The three flags are the environment:
  whether creating the listening socket, binding it, or creating the forwarding socket
  raises. When one does, the method prints the failure, runs its \<^verbatim>\<open>finally\<close>
  block and returns; otherwise \<open>running\<close> is set and the loop is entered with the
  frame returned here.
\<close>

definition start_interceptor_setup ::
    "bool \<Rightarrow> bool \<Rightarrow> bool \<Rightarrow> interceptor \<Rightarrow> relay_frame \<times> outcome" where
  "start_interceptor_setup listen_fails bind_fails forward_fails i =
     (let fr = \<lparr> self = i, listen_sock = None, forward_sock = None \<rparr>;
          banner = emit [Print (Banner ''start''), Print Separator];
          failed = (\<lambda>e. emit [Print (StartFailed e)])
      in
        if listen_fails then
          (start_interceptor_finally fr, try_except (and_then banner (raise_exn OSError)) failed)
        else
          let fr1 = fr\<lparr>listen_sock := Some \<lparr> sock_open = True, sock_bound = None \<rparr>\<rparr> in
          if bind_fails then
            (start_interceptor_finally fr1,
             try_except (and_then banner (raise_exn OSError)) failed)
          else
            let fr2 = fr1\<lparr>listen_sock :=
                        Some \<lparr> sock_open = True, sock_bound = Some (''0.0.0.0'', listen_port i) \<rparr>\<rparr>
            in
            if forward_fails then
              (start_interceptor_finally fr2,
               try_except (and_then banner (raise_exn OSError)) failed)
            else
              (fr2\<lparr>forward_sock := Some \<lparr> sock_open = True, sock_bound = None \<rparr>,
                   self := i\<lparr>running := True\<rparr>\<rparr>,
               and_then banner (emit [Print (Banner ''started'')])))"

text \<open>
  One turn of \<^verbatim>\<open>while self.running:\<close>, entered with \<open>running\<close> true. An
  exception in the body is printed and the loop goes on.
\<close>

definition interceptor_iteration ::
    "timestamp \<Rightarrow> bool \<Rightarrow> recv \<Rightarrow> relay_frame \<Rightarrow> relay_frame \<times> outcome" where
  "interceptor_iteration now refused r fr =
     (case r of
        Timeout \<Rightarrow> (fr, emit [])
      | RecvFails e \<Rightarrow> (fr, emit [Print (PacketError e)])
      | Datagram datagram addr \<Rightarrow>
          (let data = recvfrom 65536 datagram;
               i = (self fr)\<lparr>packet_count := packet_count (self fr) + 1\<rparr>;
               fr1 = fr\<lparr>self := i\<rparr>
           in
             (fr1,
              try_except
                (and_then (analyze_packet now i data addr)
                (and_then (sendto refused (forward_sock fr1) data (target_ip i, target_port i))
                   (emit [Print Forwarded, Print Separator])))
                (\<lambda>e. emit [Print (PacketError e)]))))"

text \<open>\<^verbatim>\<open>PacketInterceptor.stop\<close>: the method of the object, and its effect on a
  running activation when another thread calls it.\<close>

definition interceptor_stop :: "interceptor \<Rightarrow> interceptor \<times> outcome" where
  "interceptor_stop i = (i\<lparr>running := False\<rparr>, emit [Print (Banner ''stopping'')])"

definition stop_called :: "relay_frame \<Rightarrow> relay_frame" where
  "stop_called fr = fr\<lparr>self := fst (interceptor_stop (self fr))\<rparr>"

text \<open>The sockets of an activation that are still open.\<close>

definition open_sockets :: "relay_frame \<Rightarrow> sock list" where
  "open_sockets fr =
     filter sock_open
       ((case listen_sock fr of None \<Rightarrow> [] | Some l \<Rightarrow> [l]) @
        (case forward_sock fr of None \<Rightarrow> [] | Some f \<Rightarrow> [f]))"

section \<open>The device responder: \<^verbatim>\<open>VirtualLedBoard\<close>\<close>

text \<open>
  The handle of the discovery library (\<^verbatim>\<open>Zeroconf()\<close>) and the record it
  publishes (\<^verbatim>\<open>ServiceInfo\<close>).
\<close>

record zeroconf_handle =
  zc_closed :: bool
  zc_registered :: bool

record service_record =
  type_ :: string
  name :: string
  addresses :: "string list"
  sport :: nat
  properties :: "(string \<times> string) list"

record board =
  host :: string
  port :: nat
  device_name :: string
  socket :: "sock option"
  running :: bool
  packet_count :: nat
  last_packet_time :: "timestamp option"
  zeroconf :: "zeroconf_handle option"
  service_info :: "service_record option"
  mdns_enabled :: bool

text \<open>\<^verbatim>\<open>VirtualLedBoard.__init__\<close>; the flag is the module's MDNS_AVAILABLE.\<close>

definition init_board :: "bool \<Rightarrow> string \<Rightarrow> nat \<Rightarrow> string \<Rightarrow> board" where
  "init_board mdns_available h p n =
     \<lparr> host = h, port = p, device_name = n, socket = None, running = False,
       packet_count = 0, last_packet_time = None, zeroconf = None, service_info = None,
       mdns_enabled = mdns_available \<rparr>"

subsection \<open>Replies\<close>

definition send_heartbeat_response :: "bool \<Rightarrow> board \<Rightarrow> address \<Rightarrow> outcome" where
  "send_heartbeat_response refused b addr =
     try_except
       (and_then (sendto refused (socket b) [0x01] addr) (emit [Print HeartbeatSent]))
       (\<lambda>e. emit [Print (HeartbeatFailed e)])"

definition send_ack_response :: "bool \<Rightarrow> board \<Rightarrow> address \<Rightarrow> outcome" where
  "send_ack_response refused b addr =
     try_except
       (and_then (sendto refused (socket b) [0x00] addr) (emit [Print AckSent]))
       (\<lambda>e. emit [Print (AckFailed e)])"

definition send_connection_response :: "bool \<Rightarrow> board \<Rightarrow> address \<Rightarrow> outcome" where
  "send_connection_response refused b addr =
     try_except
       (and_then (sendto refused (socket b) [0x04, 0x01] addr) (emit [Print ConnectionSent]))
       (\<lambda>e. emit [Print (ConnectionFailed e)])"

subsection \<open>Diagnostics\<close>

definition print_hex_dump :: "bytes \<Rightarrow> outcome" where
  "print_hex_dump data =
     for_each (range16 (length data))
       (\<lambda>i. emit [Print (HexDumpLine i (slice data i (i + 16)))])"

text \<open>\<^verbatim>\<open>g, r, b = xs\<close> and \<^verbatim>\<open>g, r, b, w = xs\<close>: ValueError unless the lengths agree.\<close>

definition unpack3 :: "bytes \<Rightarrow> (byte \<Rightarrow> byte \<Rightarrow> byte \<Rightarrow> outcome) \<Rightarrow> outcome" where
  "unpack3 xs k = (case xs of [g, r, b] \<Rightarrow> k g r b | _ \<Rightarrow> raise_exn ValueError)"

definition unpack4 :: "bytes \<Rightarrow> (byte \<Rightarrow> byte \<Rightarrow> byte \<Rightarrow> byte \<Rightarrow> outcome) \<Rightarrow> outcome" where
  "unpack4 xs k = (case xs of [g, r, b, w] \<Rightarrow> k g r b w | _ \<Rightarrow> raise_exn ValueError)"

definition analyze_led_colors :: "bytes \<Rightarrow> nat \<Rightarrow> outcome" where
  "analyze_led_colors led_data offset =
     and_then (emit [Print ColorAnalysis])
    (and_then
       (if length led_data mod 3 = 0 then
          (let led_count_grb = length led_data div 3 in
           and_then (emit [Print (GrbCount led_count_grb)])
             (for_each [0 ..< min 5 led_count_grb]
                (\<lambda>i. let start_idx = i * 3 in
                   unpack3 (slice led_data start_idx (start_idx + 3))
                     (\<lambda>g r b. emit [Print (GrbLed (i + 1) g r b)]))))
        else emit [])
       (if length led_data mod 4 = 0 then
          (let led_count_grbw = length led_data div 4 in
           and_then (emit [Print (GrbwCount led_count_grbw)])
             (for_each [0 ..< min 5 led_count_grbw]
                (\<lambda>i. let start_idx = i * 4 in
                   unpack4 (slice led_data start_idx (start_idx + 4))
                     (\<lambda>g r b w. emit [Print (GrbwLed (i + 1) g r b w)]))))
        else emit []))"

definition analyze_led_data_packet :: "bytes \<Rightarrow> outcome" where
  "analyze_led_data_packet data =
     (if length data < 3 then emit [Print LedPacketTooShort]
      else
        getitem data 1 (\<lambda>hi. getitem data 2 (\<lambda>lo.
          let offset = push_bit 8 (unat hi) OR unat lo;
              led_data = drop 3 data
          in
            and_then (emit [Print (ByteOffset offset), Print (LedDataLength (length led_data))])
           (and_then
              (if length led_data > 0 then analyze_led_colors led_data offset else emit [])
           (and_then (emit [Print (RawDataHeader 32)])
              (print_hex_dump (slice data 0 (min 32 (length data)))))))))"

subsection \<open>One datagram\<close>

text \<open>
  \<^verbatim>\<open>_process_packet(data, addr)\<close>. The environment supplies \<open>now\<close>, the value of
  \<^verbatim>\<open>datetime.now()\<close>, and \<open>refused\<close>, whether the operating system refuses the
  reply. The result is the updated object and the outcome.
\<close>

definition process_packet ::
    "timestamp \<Rightarrow> bool \<Rightarrow> board \<Rightarrow> bytes \<Rightarrow> address \<Rightarrow> board \<times> outcome" where
  "process_packet now refused b data addr =
     (let b1 = b\<lparr>packet_count := packet_count b + 1\<rparr>;
          current_time = now;
          time_interval = (case last_packet_time b1 of
                             Some t \<Rightarrow> Some (current_time - t) | None \<Rightarrow> None);
          b2 = b1\<lparr>last_packet_time := Some current_time\<rparr>;
          header = emit [Print (PacketHeader (packet_count b2) current_time time_interval),
                         Print (SourceAddress (fst addr) (snd addr)),
                         Print (DataLength (length data))]
      in
        (b2,
         and_then header
           (if length data = 0 then emit [Print EmptyPacket]
            else
              getitem data 0 (\<lambda>command.
                and_then (emit [Print (ProtocolCommand command)])
                  (if command = 0x01 then
                     and_then (emit [Print HeartbeatCommand])
                       (send_heartbeat_response refused b2 addr)
                   else if command = 0x02 then
                     and_then (emit [Print LedDataCommand])
                    (and_then (analyze_led_data_packet data)
                       (send_ack_response refused b2 addr))
                   else if command = 0x03 then
                     and_then (emit [Print ConfigCommand])
                       (send_ack_response refused b2 addr)
                   else if command = 0x04 then
                     and_then (emit [Print ConnectionCommand])
                       (send_connection_response refused b2 addr)
                   else
                     and_then (emit [Print (UnknownCommand command)])
                       (print_hex_dump data))))))"

subsection \<open>The receive loop\<close>

text \<open>
  One turn of \<^verbatim>\<open>while self.running:\<close> in \<^verbatim>\<open>_receive_loop\<close>, entered with
  \<open>running\<close> true; the third component says whether the loop goes on. The receive
  buffer is 1024 bytes. Any exception other than a timeout ends the loop.
\<close>

definition receive_loop_iteration ::
    "timestamp \<Rightarrow> bool \<Rightarrow> recv \<Rightarrow> board \<Rightarrow> board \<times> outcome \<times> bool" where
  "receive_loop_iteration now refused r b =
     (let failed = (\<lambda>b' e. if running b' then emit [Print (ReceiveError e)] else emit []) in
      case socket b of
        None \<Rightarrow> (b, failed b AttributeError, False)
      | Some so \<Rightarrow>
          if \<not> sock_open so then (b, failed b OSError, False)
          else
            (case r of
               Timeout \<Rightarrow> (b, emit [], True)
             | RecvFails e \<Rightarrow> (b, failed b e, False)
             | Datagram datagram addr \<Rightarrow>
                 (let data = recvfrom 1024 datagram;
                      (b', out) = process_packet now refused b data addr
                  in case snd out of
                       None \<Rightarrow> (b', out, True)
                     | Some e \<Rightarrow> (b', try_except out (failed b'), False))))"

subsection \<open>Service advertisement\<close>

text \<open>
  What the environment decides while the service is published: the address that
  \<^verbatim>\<open>gethostbyname(gethostname())\<close> returns (None when it raises), and whether
  building the \<^verbatim>\<open>ServiceInfo\<close> (with \<^verbatim>\<open>inet_aton\<close>), creating the
  \<^verbatim>\<open>Zeroconf\<close> handle, or registering the service raises.
\<close>

record mdns_env =
  hostname_ip :: "string option"
  service_info_fails :: bool
  zeroconf_fails :: bool
  register_fails :: bool

text \<open>
  \<^verbatim>\<open>_get_local_ip\<close>. The method imports \<^verbatim>\<open>socket\<close> in its fallback branch,
  which makes the name local to the whole method: the first attempt (the outbound
  connection) raises UnboundLocalError before it opens a socket, and the fallback decides.
\<close>

definition get_local_ip :: "mdns_env \<Rightarrow> string option" where
  "get_local_ip env =
     (case (Inl UnboundLocalError :: exn + string) of
        Inr ip \<Rightarrow> Some ip
      | Inl _ \<Rightarrow> (case hostname_ip env of Some ip \<Rightarrow> Some ip | None \<Rightarrow> None))"

text \<open>\<^verbatim>\<open>_start_mdns_service\<close>: the object, the value returned, the events.\<close>

definition start_mdns_service :: "mdns_env \<Rightarrow> board \<Rightarrow> board \<times> bool \<times> event list" where
  "start_mdns_service env b =
     (case get_local_ip env of
        None \<Rightarrow> (b, False, [Print NoLocalIp])
      | Some local_ip \<Rightarrow>
          if local_ip = [] then (b, False, [Print NoLocalIp])
          else
            let service_type = ''_ambient-light._udp.local.'';
                service_name = ''Virtual-LED-Board-Debug'';
                txt_properties =
                  [(''protocol'', ''udp''), (''max_leds'', ''500''),
                   (''type'', ''ambient_light''), (''device'', ''virtual_board''),
                   (''version'', ''1.0''), (''debug'', ''true'')]
            in
            if service_info_fails env then (b, False, [Print (MdnsFailed OSError)])
            else
              let b1 = b\<lparr>service_info := Some
                         \<lparr> type_ = service_type, name = service_name @ ''.'' @ service_type,
                           addresses = [local_ip], sport = port b,
                           properties = txt_properties \<rparr>\<rparr>
              in
              if zeroconf_fails env then (b1, False, [Print (MdnsFailed OSError)])
              else
                let b2 = b1\<lparr>zeroconf := Some \<lparr> zc_closed = False, zc_registered = False \<rparr>\<rparr>
                in
                if register_fails env then (b2, False, [Print (MdnsFailed OSError)])
                else
                  (b2\<lparr>zeroconf := Some \<lparr> zc_closed = False, zc_registered = True \<rparr>\<rparr>,
                   True, [Print (Banner ''mdns details'')]))"

subsection \<open>Start and stop\<close>

text \<open>
  What the environment decides during \<^verbatim>\<open>start\<close>: whether creating the socket,
  setting its option, binding it, or starting the receive thread raises, and the fate of the
  service publication.
\<close>

record start_env =
  socket_fails :: bool
  setsockopt_fails :: bool
  bind_fails :: bool
  mdns :: mdns_env
  thread_fails :: bool

text \<open>\<^verbatim>\<open>start\<close>: the object, the value returned, the events.\<close>

definition start :: "start_env \<Rightarrow> board \<Rightarrow> board \<times> bool \<times> event list" where
  "start env b =
     (if socket_fails env then (b, False, [Print (StartFailed OSError)])
      else
        let b1 = b\<lparr>socket := Some \<lparr> sock_open = True, sock_bound = None \<rparr>\<rparr> in
        if setsockopt_fails env then (b1, False, [Print (StartFailed OSError)])
        else if bind_fails env then (b1, False, [Print (StartFailed OSError)])
        else
          let b2 = b1\<lparr>socket := Some \<lparr> sock_open = True, sock_bound = Some (host b1, port b1) \<rparr>,
                      running := True\<rparr>;
              started = [Print (Banner ''started'')];
              (b3, published) =
                (if mdns_enabled b2 then
                   (let (b', ok, es) = start_mdns_service (mdns env) b2 in
                    if ok then (b', es @ [Print MdnsPublished])
                    else (b', es @ [Print MdnsPublishFailed]))
                 else (b2, [Print MdnsDisabled]));
              before_thread = started @ published @ [Print Separator]
          in
          if thread_fails env then (b3, False, before_thread @ [Print (StartFailed RuntimeError)])
          else (b3, True, before_thread @ [ThreadStart ''_receive_loop'']))"

text \<open>
  The two calls that \<^verbatim>\<open>stop\<close> makes on the discovery handle; each may raise, as
  the environment decides.
\<close>

definition unregister_service :: "bool \<Rightarrow> zeroconf_handle \<Rightarrow> exn + zeroconf_handle" where
  "unregister_service fails zc = (if fails then Inl OSError else Inr (zc\<lparr>zc_registered := False\<rparr>))"

definition close_zeroconf :: "bool \<Rightarrow> zeroconf_handle \<Rightarrow> exn + zeroconf_handle" where
  "close_zeroconf fails zc = (if fails then Inl OSError else Inr (zc\<lparr>zc_closed := True\<rparr>))"

text \<open>\<^verbatim>\<open>socket.close()\<close>: closing a closed socket is allowed.\<close>

definition close_sock :: "sock \<Rightarrow> sock" where
  "close_sock so = so\<lparr>sock_open := False\<rparr>"

text \<open>
  \<^verbatim>\<open>stop\<close>. The flags say whether \<^verbatim>\<open>unregister_service\<close> and
  \<^verbatim>\<open>Zeroconf.close\<close> raise.
\<close>

definition stop :: "bool \<Rightarrow> bool \<Rightarrow> board \<Rightarrow> board \<times> outcome" where
  "stop unregister_fails close_fails b =
     (let b1 = b\<lparr>running := False\<rparr>;
          (b2, mdns_out) =
            (case (zeroconf b1, service_info b1) of
               (Some zc, Some si) \<Rightarrow>
                 (case unregister_service unregister_fails zc of
                    Inl e \<Rightarrow> (b1, emit [Print (MdnsUnregisterFailed e)])
                  | Inr zc1 \<Rightarrow>
                      (case close_zeroconf close_fails zc1 of
                         Inl e \<Rightarrow> (b1\<lparr>zeroconf := Some zc1\<rparr>, emit [Print (MdnsUnregisterFailed e)])
                       | Inr zc2 \<Rightarrow> (b1\<lparr>zeroconf := Some zc2\<rparr>, emit [Print MdnsUnregistered])))
             | _ \<Rightarrow> (b1, emit []));
          b3 = (case socket b2 of
                  Some so \<Rightarrow> b2\<lparr>socket := Some (close_sock so)\<rparr>
                | None \<Rightarrow> b2)
      in (b3, and_then mdns_out (emit [Print BoardStopped])))"

section \<open>Observations\<close>

text \<open>
  The socket of the responder accepts a reply: it exists, it is open, and the operating
  system does not refuse the send.
\<close>

definition accepts_send :: "bool \<Rightarrow> board \<Rightarrow> bool" where
  "accepts_send refused b =
     (case socket b of None \<Rightarrow> False | Some so \<Rightarrow> sock_open so \<and> \<not> refused)"

text \<open>The LED counts reported under each interpretation, and the offsets reported.\<close>

fun grb_counts :: "event list \<Rightarrow> nat list" where
  "grb_counts [] = []"
| "grb_counts (Print (GrbCount n) # es) = n # grb_counts es"
| "grb_counts (_ # es) = grb_counts es"

fun grbw_counts :: "event list \<Rightarrow> nat list" where
  "grbw_counts [] = []"
| "grbw_counts (Print (GrbwCount n) # es) = n # grbw_counts es"
| "grbw_counts (_ # es) = grbw_counts es"

text \<open>A responder that has started, a relay that has entered its loop, a client.\<close>

definition running_board :: board where
  "running_board =
     fst (start \<lparr> socket_fails = False, setsockopt_fails = False, bind_fails = False,
                  mdns = \<lparr> hostname_ip = Some ''192.168.1.20'', service_info_fails = False,
                           zeroconf_fails = False, register_fails = False \<rparr>,
                  thread_fails = False \<rparr>
            (init_board True ''0.0.0.0'' 8888 ''Virtual LED Board''))"

definition running_relay :: relay_frame where
  "running_relay =
     fst (start_interceptor_setup False False False
            (init_interceptor ''192.168.31.182'' 23042 8889))"

definition client :: address where
  "client = (''192.168.1.7'', 50000)"

section \<open>Properties of outcomes and loops\<close>

lemma snd_and_then: "snd (and_then p q) = (case snd p of Some e \<Rightarrow> Some e | None \<Rightarrow> snd q)"
  by (cases p) (auto simp: and_then_def split: option.splits)

lemma fst_and_then: "fst (and_then p q) = (if snd p = None then fst p @ fst q else fst p)"
  by (cases p) (auto simp: and_then_def split: option.splits)

lemma fst_emit [simp]: "fst (emit es) = es"
  by (simp add: emit_def)

lemma snd_emit [simp]: "snd (emit es) = None"
  by (simp add: emit_def)

lemma and_then_returns: "snd p = None \<Longrightarrow> snd q = None \<Longrightarrow> snd (and_then p q) = None"
  by (simp add: snd_and_then)

lemma and_then_events: "snd p = None \<Longrightarrow> fst (and_then p q) = fst p @ fst q"
  by (simp add: fst_and_then)

lemma sent_append: "sent (xs @ ys) = sent xs @ sent ys"
  by (induction xs rule: sent.induct) auto

lemma grb_counts_append: "grb_counts (xs @ ys) = grb_counts xs @ grb_counts ys"
  by (induction xs rule: grb_counts.induct) auto

lemma grbw_counts_append: "grbw_counts (xs @ ys) = grbw_counts xs @ grbw_counts ys"
  by (induction xs rule: grbw_counts.induct) auto

lemma for_each_returns:
  "(\<And>i. i \<in> set is \<Longrightarrow> snd (body i) = None) \<Longrightarrow> snd (for_each is body) = None"
  by (induction "is") (auto simp: snd_and_then)

text \<open>A loop whose turns show nothing to an observation shows nothing to it.\<close>

lemma for_each_unobserved:
  assumes "\<And>xs ys. obs (xs @ ys) = obs xs @ obs ys" and "obs [] = []"
    and "\<And>i. i \<in> set is \<Longrightarrow> obs (fst (body i)) = []"
  shows "obs (fst (for_each is body)) = []"
  using assms(3) by (induction "is") (auto simp: fst_and_then assms(1,2))

lemma slice_length: "b \<le> length xs \<Longrightarrow> a \<le> b \<Longrightarrow> length (slice xs a b) = b - a"
  by (simp add: slice_def)

lemma unpack3_returns:
  "length xs = 3 \<Longrightarrow> (\<And>g r b. snd (k g r b) = None) \<Longrightarrow> snd (unpack3 xs k) = None"
  by (auto simp: unpack3_def split: list.splits)

lemma unpack4_returns:
  "length xs = 4 \<Longrightarrow> (\<And>g r b w. snd (k g r b w) = None) \<Longrightarrow> snd (unpack4 xs k) = None"
  by (auto simp: unpack4_def split: list.splits)

lemma unpack3_unobserved:
  "obs [] = [] \<Longrightarrow> (\<And>g r b. obs (fst (k g r b)) = []) \<Longrightarrow> obs (fst (unpack3 xs k)) = []"
  by (auto simp: unpack3_def raise_exn_def split: list.splits)

lemma unpack4_unobserved:
  "obs [] = [] \<Longrightarrow> (\<And>g r b w. obs (fst (k g r b w)) = []) \<Longrightarrow> obs (fst (unpack4 xs k)) = []"
  by (auto simp: unpack4_def raise_exn_def split: list.splits)

lemma getitem_in_range: "i < length xs \<Longrightarrow> getitem xs i k = k (xs ! i)"
  by (simp add: getitem_def)

lemma grb_slice: "3 dvd n \<Longrightarrow> i < n div 3 \<Longrightarrow> i * 3 + 3 \<le> (n::nat)"
  by presburger

lemma grbw_slice: "4 dvd n \<Longrightarrow> i < n div 4 \<Longrightarrow> i * 4 + 4 \<le> (n::nat)"
  by presburger

section \<open>The responder's diagnostics never raise\<close>

lemma grb_loop_returns:
  assumes "3 dvd length xs" and "n \<le> length xs div 3"
    and "\<And>i g r b. snd (k i g r b) = None"
  shows "snd (for_each [0 ..< n] (\<lambda>i. unpack3 (slice xs (i * 3) (i * 3 + 3)) (k i))) = None"
proof (rule for_each_returns)
  fix i assume "i \<in> set [0 ..< n]"
  then have "i < length xs div 3" using assms(2) by simp
  then have "i * 3 + 3 \<le> length xs" using assms(1) by (rule grb_slice [rotated])
  then have "length (slice xs (i * 3) (i * 3 + 3)) = 3" by (simp add: slice_length)
  then show "snd (unpack3 (slice xs (i * 3) (i * 3 + 3)) (k i)) = None"
    using assms(3) by (rule unpack3_returns)
qed

lemma grbw_loop_returns:
  assumes "4 dvd length xs" and "n \<le> length xs div 4"
    and "\<And>i g r b w. snd (k i g r b w) = None"
  shows "snd (for_each [0 ..< n] (\<lambda>i. unpack4 (slice xs (i * 4) (i * 4 + 4)) (k i))) = None"
proof (rule for_each_returns)
  fix i assume "i \<in> set [0 ..< n]"
  then have "i < length xs div 4" using assms(2) by simp
  then have "i * 4 + 4 \<le> length xs" using assms(1) by (rule grbw_slice [rotated])
  then have "length (slice xs (i * 4) (i * 4 + 4)) = 4" by (simp add: slice_length)
  then show "snd (unpack4 (slice xs (i * 4) (i * 4 + 4)) (k i)) = None"
    using assms(3) by (rule unpack4_returns)
qed

lemma grb_part_returns:
  "length led_data mod 3 = 0 \<Longrightarrow>
   snd (for_each [0 ..< min 5 (length led_data div 3)]
     (\<lambda>i. unpack3 (slice led_data (i * 3) (i * 3 + 3))
        (\<lambda>g r b. emit [Print (GrbLed (i + 1) g r b)]))) = None"
  by (rule grb_loop_returns) (simp_all add: mod_eq_0_iff_dvd)

lemma grbw_part_returns:
  "length led_data mod 4 = 0 \<Longrightarrow>
   snd (for_each [0 ..< min 5 (length led_data div 4)]
     (\<lambda>i. unpack4 (slice led_data (i * 4) (i * 4 + 4))
        (\<lambda>g r b w. emit [Print (GrbwLed (i + 1) g r b w)]))) = None"
  by (rule grbw_loop_returns) (simp_all add: mod_eq_0_iff_dvd)

lemma analyze_led_colors_returns: "snd (analyze_led_colors led_data offset) = None"
  unfolding analyze_led_colors_def Let_def
  using grb_part_returns [of led_data] grbw_part_returns [of led_data]
  by (auto simp: snd_and_then)

lemma print_hex_dump_returns: "snd (print_hex_dump data) = None"
  unfolding print_hex_dump_def by (auto intro!: for_each_returns)

lemma analyze_led_data_packet_returns: "snd (analyze_led_data_packet data) = None"
  unfolding analyze_led_data_packet_def getitem_def Let_def
  by (auto simp: snd_and_then analyze_led_colors_returns print_hex_dump_returns)

section \<open>What the diagnostics show\<close>

lemma print_hex_dump_sent: "sent (fst (print_hex_dump data)) = []"
  unfolding print_hex_dump_def by (rule for_each_unobserved) (simp_all add: sent_append)

lemma print_hex_dump_grb: "grb_counts (fst (print_hex_dump data)) = []"
  unfolding print_hex_dump_def by (rule for_each_unobserved) (simp_all add: grb_counts_append)

lemma print_hex_dump_grbw: "grbw_counts (fst (print_hex_dump data)) = []"
  unfolding print_hex_dump_def by (rule for_each_unobserved) (simp_all add: grbw_counts_append)

lemma grb_part_sent:
  "sent (fst (for_each ns (\<lambda>i. unpack3 (slice xs (i * 3) (i * 3 + 3))
        (\<lambda>g r b. emit [Print (GrbLed (i + 1) g r b)])))) = []"
  by (rule for_each_unobserved) (simp_all add: sent_append unpack3_unobserved)

lemma grbw_part_sent:
  "sent (fst (for_each ns (\<lambda>i. unpack4 (slice xs (i * 4) (i * 4 + 4))
        (\<lambda>g r b w. emit [Print (GrbwLed (i + 1) g r b w)])))) = []"
  by (rule for_each_unobserved) (simp_all add: sent_append unpack4_unobserved)

lemma grb_part_grb:
  "grb_counts (fst (for_each ns (\<lambda>i. unpack3 (slice xs (i * 3) (i * 3 + 3))
        (\<lambda>g r b. emit [Print (GrbLed (i + 1) g r b)])))) = []"
  by (rule for_each_unobserved) (simp_all add: grb_counts_append unpack3_unobserved)

lemma grbw_part_grb:
  "grb_counts (fst (for_each ns (\<lambda>i. unpack4 (slice xs (i * 4) (i * 4 + 4))
        (\<lambda>g r b w. emit [Print (GrbwLed (i + 1) g r b w)])))) = []"
  by (rule for_each_unobserved) (simp_all add: grb_counts_append unpack4_unobserved)

lemma grb_part_grbw:
  "grbw_counts (fst (for_each ns (\<lambda>i. unpack3 (slice xs (i * 3) (i * 3 + 3))
        (\<lambda>g r b. emit [Print (GrbLed (i + 1) g r b)])))) = []"
  by (rule for_each_unobserved) (simp_all add: grbw_counts_append unpack3_unobserved)

lemma grbw_part_grbw:
  "grbw_counts (fst (for_each ns (\<lambda>i. unpack4 (slice xs (i * 4) (i * 4 + 4))
        (\<lambda>g r b w. emit [Print (GrbwLed (i + 1) g r b w)])))) = []"
  by (rule for_each_unobserved) (simp_all add: grbw_counts_append unpack4_unobserved)

lemma analyze_led_colors_sent: "sent (fst (analyze_led_colors led_data offset)) = []"
  unfolding analyze_led_colors_def Let_def
  using grb_part_returns [of led_data] grbw_part_returns [of led_data]
    grb_part_sent [of "[0 ..< min 5 (length led_data div 3)]" led_data]
    grbw_part_sent [of "[0 ..< min 5 (length led_data div 4)]" led_data]
  by (auto simp: fst_and_then snd_and_then sent_append)

lemma analyze_led_colors_grb:
  "grb_counts (fst (analyze_led_colors led_data offset)) =
     (if length led_data mod 3 = 0 then [length led_data div 3] else [])"
  unfolding analyze_led_colors_def Let_def
  using grb_part_returns [of led_data] grbw_part_returns [of led_data]
    grb_part_grb [of "[0 ..< min 5 (length led_data div 3)]" led_data]
    grbw_part_grb [of "[0 ..< min 5 (length led_data div 4)]" led_data]
  by (auto simp: fst_and_then snd_and_then grb_counts_append)

lemma analyze_led_colors_grbw:
  "grbw_counts (fst (analyze_led_colors led_data offset)) =
     (if length led_data mod 4 = 0 then [length led_data div 4] else [])"
  unfolding analyze_led_colors_def Let_def
  using grb_part_returns [of led_data] grbw_part_returns [of led_data]
    grb_part_grbw [of "[0 ..< min 5 (length led_data div 3)]" led_data]
    grbw_part_grbw [of "[0 ..< min 5 (length led_data div 4)]" led_data]
  by (auto simp: fst_and_then snd_and_then grbw_counts_append)

section \<open>The responder, datagram by datagram\<close>

lemma big_endian_offset: "push_bit 8 (unat (hi::byte)) OR unat (lo::byte) = unat hi * 256 + unat lo"
proof -
  have "push_bit 8 (unat hi) + unat lo = push_bit 8 (unat hi) OR unat lo"
  proof (rule disjunctive_add)
    fix n
    show "\<not> bit (push_bit 8 (unat hi)) n \<or> \<not> bit (unat lo) n"
      by (cases "n < 8") (auto simp: bit_push_bit_iff bit_unsigned_iff dest: bit_imp_le_length)
  qed
  then show ?thesis by (simp add: push_bit_eq_mult)
qed

lemma big_endian_offset_bound: "unat (hi::byte) * 256 + unat (lo::byte) \<le> 65535"
proof -
  have "unat hi < 256" "unat lo < 256"
    using unsigned_less [of hi, where 'a = nat] unsigned_less [of lo, where 'a = nat] by simp_all
  then show ?thesis by simp
qed

lemma analyze_led_data_packet_sent: "sent (fst (analyze_led_data_packet data)) = []"
  unfolding analyze_led_data_packet_def getitem_def Let_def
  by (auto simp: fst_and_then snd_and_then sent_append raise_exn_def
      analyze_led_colors_returns analyze_led_colors_sent print_hex_dump_sent)

lemma analyze_led_data_packet_events:
  "3 \<le> length data \<Longrightarrow>
   fst (analyze_led_data_packet data) =
     [Print (ByteOffset (unat (data ! 1) * 256 + unat (data ! 2))),
      Print (LedDataLength (length (drop 3 data)))] @
     (if 0 < length (drop 3 data)
      then fst (analyze_led_colors (drop 3 data) (unat (data ! 1) * 256 + unat (data ! 2)))
      else []) @
     Print (RawDataHeader 32) # fst (print_hex_dump (slice data 0 (min 32 (length data))))"
  unfolding analyze_led_data_packet_def Let_def
  by (simp add: getitem_in_range big_endian_offset and_then_events
      analyze_led_colors_returns)

lemma send_heartbeat_response_events:
  "fst (send_heartbeat_response refused b addr) =
     (if accepts_send refused b then [SendTo [0x01] addr, Print HeartbeatSent]
      else [Print (HeartbeatFailed (if socket b = None then AttributeError else OSError))])"
  by (auto simp: send_heartbeat_response_def try_except_def and_then_def sendto_def
      accepts_send_def raise_exn_def emit_def split: option.splits)

lemma send_ack_response_events:
  "fst (send_ack_response refused b addr) =
     (if accepts_send refused b then [SendTo [0x00] addr, Print AckSent]
      else [Print (AckFailed (if socket b = None then AttributeError else OSError))])"
  by (auto simp: send_ack_response_def try_except_def and_then_def sendto_def
      accepts_send_def raise_exn_def emit_def split: option.splits)

lemma send_connection_response_events:
  "fst (send_connection_response refused b addr) =
     (if accepts_send refused b then [SendTo [0x04, 0x01] addr, Print ConnectionSent]
      else [Print (ConnectionFailed (if socket b = None then AttributeError else OSError))])"
  by (auto simp: send_connection_response_def try_except_def and_then_def sendto_def
      accepts_send_def raise_exn_def emit_def split: option.splits)

lemma send_heartbeat_response_returns: "snd (send_heartbeat_response refused b addr) = None"
  by (auto simp: send_heartbeat_response_def try_except_def and_then_def sendto_def
      raise_exn_def emit_def split: option.splits)

lemma send_ack_response_returns: "snd (send_ack_response refused b addr) = None"
  by (auto simp: send_ack_response_def try_except_def and_then_def sendto_def
      raise_exn_def emit_def split: option.splits)

lemma send_connection_response_returns: "snd (send_connection_response refused b addr) = None"
  by (auto simp: send_connection_response_def try_except_def and_then_def sendto_def
      raise_exn_def emit_def split: option.splits)

text \<open>The events of a non-empty datagram, command by command.\<close>

lemma process_packet_events:
  assumes "data \<noteq> []"
  shows "fst (snd (process_packet now refused b data addr)) =
     [Print (PacketHeader (packet_count b + 1) now
               (case last_packet_time b of Some t \<Rightarrow> Some (now - t) | None \<Rightarrow> None)),
      Print (SourceAddress (fst addr) (snd addr)),
      Print (DataLength (length data)),
      Print (ProtocolCommand (hd data))] @
     (let b' = b\<lparr>packet_count := packet_count b + 1, last_packet_time := Some now\<rparr> in
      if hd data = 0x01 then Print HeartbeatCommand # fst (send_heartbeat_response refused b' addr)
      else if hd data = 0x02 then
        Print LedDataCommand # fst (analyze_led_data_packet data) @
          fst (send_ack_response refused b' addr)
      else if hd data = 0x03 then Print ConfigCommand # fst (send_ack_response refused b' addr)
      else if hd data = 0x04 then
        Print ConnectionCommand # fst (send_connection_response refused b' addr)
      else Print (UnknownCommand (hd data)) # fst (print_hex_dump data))"
proof -
  from assms have l: "0 < length data" and h: "data ! 0 = hd data"
    by (simp_all add: hd_conv_nth)
  show ?thesis
    unfolding process_packet_def Let_def
    using l h
    by (simp add: getitem_in_range and_then_events analyze_led_data_packet_returns)
qed

lemma process_packet_returns: "snd (snd (process_packet now refused b data addr)) = None"
  unfolding process_packet_def Let_def getitem_def
  by (simp add: snd_and_then analyze_led_data_packet_returns print_hex_dump_returns
      send_heartbeat_response_returns send_ack_response_returns
      send_connection_response_returns)

lemma process_packet_board:
  "fst (process_packet now refused b data addr) =
     b\<lparr>packet_count := packet_count b + 1, last_packet_time := Some now\<rparr>"
  by (simp add: process_packet_def Let_def)

lemma accepts_send_counted [simp]:
  "accepts_send refused (b\<lparr>packet_count := n, last_packet_time := t\<rparr>) = accepts_send refused b"
  by (simp add: accepts_send_def)

lemma running_board_socket:
  "socket running_board = Some \<lparr> sock_open = True, sock_bound = Some (''0.0.0.0'', 8888) \<rparr>"
  by (simp add: running_board_def start_def init_board_def start_mdns_service_def
      get_local_ip_def Let_def)

lemma running_board_accepts: "accepts_send False running_board"
  by (simp add: accepts_send_def running_board_socket)

lemma running_board_counters:
  "packet_count running_board = 0" "last_packet_time running_board = None"
  by (simp_all add: running_board_def start_def init_board_def start_mdns_service_def
      get_local_ip_def Let_def)

section \<open>The relay, datagram by datagram\<close>

lemma getitem_unobserved:
  "obs [] = [] \<Longrightarrow> (\<And>x. obs (fst (k x)) = []) \<Longrightarrow> obs (fst (getitem xs i k)) = []"
  by (simp add: getitem_def raise_exn_def)

lemma relay_grb_part_returns:
  assumes "length xs mod 3 = 0"
  shows "snd (for_each [0 ..< min 5 (length xs div 3)]
     (\<lambda>i. getitem xs (i * 3) (\<lambda>g. getitem xs (i * 3 + 1) (\<lambda>r. getitem xs (i * 3 + 2) (\<lambda>b.
        emit [Print (GrbLed (i + 1) g r b)]))))) = None"
proof (rule for_each_returns)
  fix i assume "i \<in> set [0 ..< min 5 (length xs div 3)]"
  then have "i < length xs div 3" by simp
  with assms have "i * 3 + 3 \<le> length xs" by (simp add: grb_slice mod_eq_0_iff_dvd)
  then show "snd (getitem xs (i * 3) (\<lambda>g. getitem xs (i * 3 + 1) (\<lambda>r.
      getitem xs (i * 3 + 2) (\<lambda>b. emit [Print (GrbLed (i + 1) g r b)])))) = None"
    by (simp add: getitem_def)
qed

lemma relay_grbw_part_returns:
  assumes "length xs mod 4 = 0"
  shows "snd (for_each [0 ..< min 5 (length xs div 4)]
     (\<lambda>i. getitem xs (i * 4) (\<lambda>g. getitem xs (i * 4 + 1) (\<lambda>r. getitem xs (i * 4 + 2) (\<lambda>b.
        getitem xs (i * 4 + 3) (\<lambda>w. emit [Print (GrbwLed (i + 1) g r b w)])))))) = None"
proof (rule for_each_returns)
  fix i assume "i \<in> set [0 ..< min 5 (length xs div 4)]"
  then have "i < length xs div 4" by simp
  with assms have "i * 4 + 4 \<le> length xs" by (simp add: grbw_slice mod_eq_0_iff_dvd)
  then show "snd (getitem xs (i * 4) (\<lambda>g. getitem xs (i * 4 + 1) (\<lambda>r.
      getitem xs (i * 4 + 2) (\<lambda>b. getitem xs (i * 4 + 3) (\<lambda>w.
        emit [Print (GrbwLed (i + 1) g r b w)]))))) = None"
    by (simp add: getitem_def)
qed

lemma relay_grb_part_sent:
  "sent (fst (for_each ns
     (\<lambda>i. getitem xs (i * 3) (\<lambda>g. getitem xs (i * 3 + 1) (\<lambda>r. getitem xs (i * 3 + 2) (\<lambda>b.
        emit [Print (GrbLed (i + 1) g r b)])))))) = []"
  by (rule for_each_unobserved) (simp_all add: sent_append getitem_unobserved)

lemma relay_grbw_part_sent:
  "sent (fst (for_each ns
     (\<lambda>i. getitem xs (i * 4) (\<lambda>g. getitem xs (i * 4 + 1) (\<lambda>r. getitem xs (i * 4 + 2) (\<lambda>b.
        getitem xs (i * 4 + 3) (\<lambda>w. emit [Print (GrbwLed (i + 1) g r b w)]))))))) = []"
  by (rule for_each_unobserved) (simp_all add: sent_append getitem_unobserved)

lemma analyze_led_data_returns: "snd (analyze_led_data led_data) = None"
  unfolding analyze_led_data_def Let_def
  using relay_grb_part_returns [of led_data] relay_grbw_part_returns [of led_data]
  by (auto simp: snd_and_then)

lemma analyze_led_data_sent: "sent (fst (analyze_led_data led_data)) = []"
  unfolding analyze_led_data_def Let_def
  using relay_grb_part_returns [of led_data] relay_grbw_part_returns [of led_data]
    relay_grb_part_sent [of "[0 ..< min 5 (length led_data div 3)]" led_data]
    relay_grbw_part_sent [of "[0 ..< min 5 (length led_data div 4)]" led_data]
  by (auto simp: fst_and_then snd_and_then sent_append)

lemma analyze_packet_returns: "snd (analyze_packet now i data addr) = None"
  unfolding analyze_packet_def Let_def getitem_def
  by (auto simp: snd_and_then analyze_led_data_returns)

lemma analyze_packet_events:
  "fst (analyze_packet now i data addr) =
     [Print (PacketHeader (interceptor.packet_count i) now None),
      Print (SourceAddress (fst addr) (snd addr)),
      Print (DataLength (length data))] @
     (if 3 \<le> length data then
        [Print (ProtocolCommand (data ! 0)),
         Print (ByteOffset (unat (data ! 1) * 256 + unat (data ! 2))),
         Print (LedDataLength (length data - 3))] @
        (if 3 < length data then fst (analyze_led_data (drop 3 data)) else []) @
        [Print (RawDataHeader (min 32 (length data))),
         Print (RawHex (take 32 data)),
         Print (RawAscii (take 32 data))]
      else [Print PacketTooShort])"
proof (cases "3 \<le> length data")
  case True
  then have r: "0 < length data" "1 < length data" "2 < length data"
    by linarith+
  have t: "take (min 32 (length data)) data = take 32 data"
    by (simp add: min_def)
  show ?thesis
    unfolding analyze_packet_def Let_def
    using True r
    by (simp add: getitem_def big_endian_offset and_then_events
        analyze_led_data_returns slice_def t)
next
  case False
  then show ?thesis
    unfolding analyze_packet_def Let_def by (simp add: and_then_events)
qed

lemma analyze_packet_sent: "sent (fst (analyze_packet now i data addr)) = []"
  by (simp add: analyze_packet_events sent_append analyze_led_data_sent)

text \<open>The events of one turn of the relay's loop on a datagram.\<close>

lemma interceptor_iteration_events:
  "fst (snd (interceptor_iteration now refused (Datagram datagram addr) fr)) =
     (let i = (self fr)\<lparr>interceptor.packet_count := interceptor.packet_count (self fr) + 1\<rparr> in
      fst (analyze_packet now i (take 65536 datagram) addr) @
      (case forward_sock fr of
         None \<Rightarrow> [Print (PacketError AttributeError)]
       | Some fs \<Rightarrow>
           if sock_open fs \<and> \<not> refused then
             [SendTo (take 65536 datagram) (target_ip (self fr), target_port (self fr)),
              Print Forwarded, Print Separator]
           else [Print (PacketError OSError)]))"
  unfolding interceptor_iteration_def Let_def recvfrom_def
  using analyze_packet_returns
    [of now "(self fr)\<lparr>interceptor.packet_count := interceptor.packet_count (self fr) + 1\<rparr>"
        "take 65536 datagram" addr]
  by (cases "analyze_packet now
        ((self fr)\<lparr>interceptor.packet_count := interceptor.packet_count (self fr) + 1\<rparr>)
        (take 65536 datagram) addr")
     (auto simp: try_except_def and_then_def sendto_def raise_exn_def emit_def
       split: option.splits)

section \<open>Claims about the responder\<close>

lemma send_ack_response_grb: "grb_counts (fst (send_ack_response refused b addr)) = []"
  by (simp add: send_ack_response_events)

lemma send_ack_response_grbw: "grbw_counts (fst (send_ack_response refused b addr)) = []"
  by (simp add: send_ack_response_events)

text \<open>
  Claim C3. For a non-empty datagram the reply follows the first byte: \<open>0x01\<close> is answered
  with the single byte \<open>0x01\<close>, \<open>0x04\<close> with the two bytes \<open>0x04 0x01\<close>, \<open>0x03\<close>
  with the single byte \<open>0x00\<close> (each whenever the socket accepts the send), and a first
  byte outside \<open>{0x01, 0x02, 0x03, 0x04}\<close> gets no reply: after the header lines only
  the unknown-command line and the hex dump are produced.
\<close>

theorem responder_reply_by_command:
  assumes "data \<noteq> []"
  shows "(accepts_send refused b \<longrightarrow>
            (hd data = 0x01 \<longrightarrow>
               sent (fst (snd (process_packet now refused b data addr))) = [([0x01], addr)]) \<and>
            (hd data = 0x04 \<longrightarrow>
               sent (fst (snd (process_packet now refused b data addr))) = [([0x04, 0x01], addr)]) \<and>
            (hd data = 0x03 \<longrightarrow>
               sent (fst (snd (process_packet now refused b data addr))) = [([0x00], addr)])) \<and>
         (hd data \<notin> {0x01, 0x02, 0x03, 0x04} \<longrightarrow>
            sent (fst (snd (process_packet now refused b data addr))) = [] \<and>
            fst (snd (process_packet now refused b data addr)) =
              [Print (PacketHeader (packet_count b + 1) now
                        (case last_packet_time b of Some t \<Rightarrow> Some (now - t) | None \<Rightarrow> None)),
               Print (SourceAddress (fst addr) (snd addr)),
               Print (DataLength (length data)),
               Print (ProtocolCommand (hd data)),
               Print (UnknownCommand (hd data))] @ fst (print_hex_dump data))"
  using assms
  by (simp add: process_packet_events send_heartbeat_response_events
      send_ack_response_events send_connection_response_events print_hex_dump_sent
      sent_append)

text \<open>
  Witness for C3: a heartbeat, a connection check, a configuration frame and an unknown
  command, each sent to a started responder.
\<close>

theorem responder_reply_by_command_witness:
  "accepts_send False running_board \<and>
   sent (fst (snd (process_packet 5 False running_board [0x01] client))) = [([0x01], client)] \<and>
   sent (fst (snd (process_packet 5 False running_board [0x04] client))) = [([0x04, 0x01], client)] \<and>
   sent (fst (snd (process_packet 5 False running_board [0x03, 0x07] client))) = [([0x00], client)] \<and>
   sent (fst (snd (process_packet 5 False running_board [0x09, 0x08, 0x07] client))) = []"
  using responder_reply_by_command [of "[0x01]" False running_board 5 client]
    responder_reply_by_command [of "[0x04]" False running_board 5 client]
    responder_reply_by_command [of "[0x03, 0x07]" False running_board 5 client]
    responder_reply_by_command [of "[0x09, 0x08, 0x07]" False running_board 5 client]
    running_board_accepts
  by (simp add: print_hex_dump_sent)

text \<open>
  Counterexample for C1: the one-byte datagram \<open>0x02\<close> is an LED-data frame shorter than
  3 bytes, and the responder answers it with the acknowledge byte \<open>0x00\<close>.
\<close>

theorem short_led_frame_reply_counterexample:
  "hd [0x02 :: byte] = 0x02 \<and> length [0x02 :: byte] < 3 \<and>
   sent (fst (snd (process_packet 5 False running_board [0x02] client))) = [([0x00], client)]"
  using running_board_accepts
  by (simp add: process_packet_events analyze_led_data_packet_def send_ack_response_events)

text \<open>
  Claim C1, amended. For a datagram whose first byte is \<open>0x02\<close> and whose length is
  less than 3, the LED analysis only logs that the packet is too short (no offset and no
  colour data are read), and the responder then still sends the acknowledge byte
  \<open>0x00\<close> to the sender, whenever the socket accepts the send.
\<close>

theorem short_led_frame_acknowledged:
  assumes "data \<noteq> []" and "hd data = 0x02" and "length data < 3"
  shows "fst (snd (process_packet now refused b data addr)) =
           [Print (PacketHeader (packet_count b + 1) now
                     (case last_packet_time b of Some t \<Rightarrow> Some (now - t) | None \<Rightarrow> None)),
            Print (SourceAddress (fst addr) (snd addr)),
            Print (DataLength (length data)),
            Print (ProtocolCommand 0x02),
            Print LedDataCommand,
            Print LedPacketTooShort] @
           (if accepts_send refused b then [SendTo [0x00] addr, Print AckSent]
            else [Print (AckFailed (if socket b = None then AttributeError else OSError))]) \<and>
         sent (fst (snd (process_packet now refused b data addr))) =
           (if accepts_send refused b then [([0x00], addr)] else [])"
  using assms
  by (simp add: process_packet_events analyze_led_data_packet_def send_ack_response_events)

text \<open>Witness for C1: the two-byte datagram \<open>0x02 0x00\<close>.\<close>

theorem short_led_frame_acknowledged_witness:
  "[0x02, 0x00 :: byte] \<noteq> [] \<and> hd [0x02, 0x00 :: byte] = 0x02 \<and> length [0x02, 0x00 :: byte] < 3 \<and>
   fst (snd (process_packet 5 False running_board [0x02, 0x00] client)) =
     [Print (PacketHeader 1 5 None), Print (SourceAddress ''192.168.1.7'' 50000),
      Print (DataLength 2), Print (ProtocolCommand 0x02), Print LedDataCommand,
      Print LedPacketTooShort, SendTo [0x00] client, Print AckSent]"
  using short_led_frame_acknowledged [of "[0x02, 0x00]" 5 False running_board client]
    running_board_accepts
  by (simp add: running_board_counters client_def)

text \<open>
  Counterexample for C4: after an empty datagram the packet counter and the last-arrival
  time of a started responder differ from their values before.
\<close>

theorem empty_datagram_counterexample:
  "packet_count (fst (process_packet 5 False running_board [] client)) \<noteq> packet_count running_board \<and>
   last_packet_time (fst (process_packet 5 False running_board [] client)) \<noteq>
     last_packet_time running_board"
  by (simp add: process_packet_board running_board_counters)

text \<open>
  Claim C4, amended. An empty datagram is counted and time-stamped, reported as empty, and
  not answered: the packet counter grows by one, the last-arrival time becomes the arrival
  time, no other field changes, and nothing is sent.
\<close>

theorem empty_datagram_counted_not_answered:
  "process_packet now refused b [] addr =
     (b\<lparr>packet_count := packet_count b + 1, last_packet_time := Some now\<rparr>,
      [Print (PacketHeader (packet_count b + 1) now
                (case last_packet_time b of Some t \<Rightarrow> Some (now - t) | None \<Rightarrow> None)),
       Print (SourceAddress (fst addr) (snd addr)),
       Print (DataLength 0),
       Print EmptyPacket],
      None) \<and>
   sent (fst (snd (process_packet now refused b [] addr))) = []"
  by (simp add: process_packet_def Let_def and_then_def emit_def)

text \<open>
  Counterexample for C5: the frame \<open>0x02 0x00 0x00\<close> has no colour bytes, so both
  divisibility conditions hold, and neither interpretation is reported.
\<close>

theorem led_counts_counterexample:
  "hd [0x02, 0x00, 0x00 :: byte] = 0x02 \<and> 3 \<le> length [0x02, 0x00, 0x00 :: byte] \<and>
   length (drop 3 [0x02, 0x00, 0x00 :: byte]) mod 3 = 0 \<and>
   grb_counts (fst (snd (process_packet 5 False running_board [0x02, 0x00, 0x00] client))) = [] \<and>
   length (drop 3 [0x02, 0x00, 0x00 :: byte]) mod 4 = 0 \<and>
   grbw_counts (fst (snd (process_packet 5 False running_board [0x02, 0x00, 0x00] client))) = []"
  by (simp add: process_packet_events analyze_led_data_packet_events
      grb_counts_append grbw_counts_append print_hex_dump_grb print_hex_dump_grbw
      send_ack_response_grb send_ack_response_grbw)

text \<open>
  Claim C5, amended. For an LED-data frame (first byte \<open>0x02\<close>, length at least 3) with
  colour bytes \<open>bytes[3:]\<close>, the GRB interpretation is reported, once and with count
  \<open>len div 3\<close>, exactly when the colour bytes are not empty and their number is a multiple
  of 3; independently the GRBW interpretation is reported, once and with count
  \<open>len div 4\<close>, exactly when the colour bytes are not empty and their number is a multiple
  of 4.
\<close>

theorem led_counts_reported:
  assumes "data \<noteq> []" and "hd data = 0x02" and "3 \<le> length data"
  shows "grb_counts (fst (snd (process_packet now refused b data addr))) =
           (if 0 < length (drop 3 data) \<and> length (drop 3 data) mod 3 = 0
            then [length (drop 3 data) div 3] else []) \<and>
         grbw_counts (fst (snd (process_packet now refused b data addr))) =
           (if 0 < length (drop 3 data) \<and> length (drop 3 data) mod 4 = 0
            then [length (drop 3 data) div 4] else [])"
  using assms
  by (simp add: process_packet_events analyze_led_data_packet_events
      grb_counts_append grbw_counts_append print_hex_dump_grb print_hex_dump_grbw
      send_ack_response_grb send_ack_response_grbw
      analyze_led_colors_grb analyze_led_colors_grbw)

text \<open>
  Witness for C5: twelve colour bytes are reported as 4 GRB LEDs and as 3 GRBW LEDs.
\<close>

theorem led_counts_reported_witness:
  "[0x02, 0, 0, 0, 255, 0, 0, 255, 0, 1, 2, 3, 4, 5, 6 :: byte] \<noteq> [] \<and>
   hd [0x02, 0, 0, 0, 255, 0, 0, 255, 0, 1, 2, 3, 4, 5, 6 :: byte] = 0x02 \<and>
   3 \<le> length [0x02, 0, 0, 0, 255, 0, 0, 255, 0, 1, 2, 3, 4, 5, 6 :: byte] \<and>
   grb_counts (fst (snd (process_packet 5 False running_board
       [0x02, 0, 0, 0, 255, 0, 0, 255, 0, 1, 2, 3, 4, 5, 6] client))) = [4] \<and>
   grbw_counts (fst (snd (process_packet 5 False running_board
       [0x02, 0, 0, 0, 255, 0, 0, 255, 0, 1, 2, 3, 4, 5, 6] client))) = [3]"
  using led_counts_reported
    [of "[0x02, 0, 0, 0, 255, 0, 0, 255, 0, 1, 2, 3, 4, 5, 6]" 5 False running_board client]
  by simp

text \<open>
  Claim C6. For a datagram of at least 3 bytes (the LED analysis runs on the datagrams whose
  first byte is \<open>0x02\<close>), the offset that is decoded and reported is
  \<open>bytes[1] * 256 + bytes[2]\<close>, which is at most 65535, and the colour bytes, whose
  length is reported and which the colour analysis receives, are \<open>bytes[3:]\<close>.
\<close>

theorem led_frame_offset_big_endian:
  assumes "3 \<le> length data"
  shows "unat (data ! 1) * 256 + unat (data ! 2) \<le> 65535 \<and>
         fst (analyze_led_data_packet data) =
           [Print (ByteOffset (unat (data ! 1) * 256 + unat (data ! 2))),
            Print (LedDataLength (length (drop 3 data)))] @
           (if 0 < length (drop 3 data)
            then fst (analyze_led_colors (drop 3 data) (unat (data ! 1) * 256 + unat (data ! 2)))
            else []) @
           Print (RawDataHeader 32) # fst (print_hex_dump (slice data 0 (min 32 (length data))))"
  using assms analyze_led_data_packet_events [of data] big_endian_offset_bound [of "data ! 1" "data ! 2"]
  by simp

text \<open>Witness for C6: offset bytes \<open>0x01 0x02\<close> decode to 258.\<close>

theorem led_frame_offset_big_endian_witness:
  "3 \<le> length [0x02, 0x01, 0x02, 0x0A, 0x0B :: byte] \<and>
   fst (analyze_led_data_packet [0x02, 0x01, 0x02, 0x0A, 0x0B]) =
     [Print (ByteOffset 258), Print (LedDataLength 2), Print ColorAnalysis,
      Print (RawDataHeader 32), Print (HexDumpLine 0 [0x02, 0x01, 0x02, 0x0A, 0x0B])]"
  using led_frame_offset_big_endian [of "[0x02, 0x01, 0x02, 0x0A, 0x0B]"]
  by (simp add: analyze_led_colors_def print_hex_dump_def slice_def range16_def
      and_then_def emit_def)

section \<open>Claims about the relay and the receive buffers\<close>

lemma running_relay_frame:
  "running_relay =
     \<lparr> self = \<lparr> target_ip = ''192.168.31.182'', target_port = 23042, listen_port = 8889,
                running = True, packet_count = 0 \<rparr>,
       listen_sock = Some \<lparr> sock_open = True, sock_bound = Some (''0.0.0.0'', 8889) \<rparr>,
       forward_sock = Some \<lparr> sock_open = True, sock_bound = None \<rparr> \<rparr>"
  by (simp add: running_relay_def start_interceptor_setup_def init_interceptor_def Let_def)

lemma interceptor_iteration_sent:
  "sent (fst (snd (interceptor_iteration now refused (Datagram datagram addr) fr))) =
     (case forward_sock fr of
        None \<Rightarrow> []
      | Some fs \<Rightarrow>
          if sock_open fs \<and> \<not> refused
          then [(take 65536 datagram, (target_ip (self fr), target_port (self fr)))]
          else [])"
  by (simp add: interceptor_iteration_events Let_def sent_append analyze_packet_sent
      split: option.splits)

text \<open>
  Claim C2. For every datagram that the relay receives, whatever its length and its first
  byte, the relay sends exactly one datagram, to the configured target, whose bytes are the
  received bytes: the decoded form plays no part, and the logging parse never prevents the
  send. The forwarding socket of a running relay is open; the send is the one that the
  operating system does not refuse. A datagram of at most 65536 bytes is received whole.
\<close>

theorem relay_forwards_bytes_unchanged:
  assumes "forward_sock fr = Some fs" and "sock_open fs" and "\<not> refused"
  shows "sent (fst (snd (interceptor_iteration now refused (Datagram datagram addr) fr))) =
           [(recvfrom 65536 datagram, (target_ip (self fr), target_port (self fr)))] \<and>
         (length datagram \<le> 65536 \<longrightarrow> recvfrom 65536 datagram = datagram)"
  using assms by (simp add: interceptor_iteration_sent recvfrom_def)

text \<open>
  Witness for C2: the empty datagram and a two-byte datagram that no command matches, each
  forwarded unchanged by a relay that has entered its loop.
\<close>

theorem relay_forwards_bytes_unchanged_witness:
  "forward_sock running_relay = Some \<lparr> sock_open = True, sock_bound = None \<rparr> \<and>
   sent (fst (snd (interceptor_iteration 5 False (Datagram [] client) running_relay))) =
     [([], (''192.168.31.182'', 23042))] \<and>
   sent (fst (snd (interceptor_iteration 5 False (Datagram [0xAB, 0xCD] client) running_relay))) =
     [([0xAB, 0xCD], (''192.168.31.182'', 23042))]"
  using relay_forwards_bytes_unchanged
      [of running_relay "\<lparr> sock_open = True, sock_bound = None \<rparr>" False 5 "[]" client]
    relay_forwards_bytes_unchanged
      [of running_relay "\<lparr> sock_open = True, sock_bound = None \<rparr>" False 5 "[0xAB, 0xCD]" client]
  by (simp add: running_relay_frame recvfrom_def)

text \<open>
  Claim C10. The relay's logging parse reads every datagram of at least 3 bytes as an
  LED-data frame, whatever its first byte: bytes 1 and 2 as a big-endian offset, the bytes
  from index 3 as colour data. Every datagram shorter than 3 bytes is logged as too short,
  the one-byte heartbeat and connection check included. The parse never raises, and the
  datagram is forwarded in every case.
\<close>

theorem relay_logging_parse:
  "(3 \<le> length data \<longrightarrow>
      fst (analyze_packet now i data addr) =
        [Print (PacketHeader (interceptor.packet_count i) now None),
         Print (SourceAddress (fst addr) (snd addr)),
         Print (DataLength (length data)),
         Print (ProtocolCommand (data ! 0)),
         Print (ByteOffset (unat (data ! 1) * 256 + unat (data ! 2))),
         Print (LedDataLength (length (drop 3 data)))] @
        (if drop 3 data \<noteq> [] then fst (analyze_led_data (drop 3 data)) else []) @
        [Print (RawDataHeader (min 32 (length data))),
         Print (RawHex (take 32 data)),
         Print (RawAscii (take 32 data))]) \<and>
   (length data < 3 \<longrightarrow>
      fst (analyze_packet now i data addr) =
        [Print (PacketHeader (interceptor.packet_count i) now None),
         Print (SourceAddress (fst addr) (snd addr)),
         Print (DataLength (length data)),
         Print PacketTooShort]) \<and>
   snd (analyze_packet now i data addr) = None \<and>
   (forward_sock fr = Some fs \<and> sock_open fs \<and> \<not> refused \<longrightarrow>
      sent (fst (snd (interceptor_iteration now refused (Datagram data addr) fr))) =
        [(take 65536 data, (target_ip (self fr), target_port (self fr)))])"
  by (auto simp: analyze_packet_events analyze_packet_returns interceptor_iteration_sent)

text \<open>
  Witness for C10: the heartbeat \<open>0x01\<close> and the connection check \<open>0x04\<close> are logged as
  too short, a three-byte datagram with command \<open>0x01\<close> is parsed as LED data at offset
  258, and the heartbeat is forwarded.
\<close>

theorem relay_logging_parse_witness:
  "fst (analyze_packet 5 (self running_relay) [0x01] client) =
     [Print (PacketHeader 0 5 None), Print (SourceAddress ''192.168.1.7'' 50000),
      Print (DataLength 1), Print PacketTooShort] \<and>
   fst (analyze_packet 5 (self running_relay) [0x04] client) =
     [Print (PacketHeader 0 5 None), Print (SourceAddress ''192.168.1.7'' 50000),
      Print (DataLength 1), Print PacketTooShort] \<and>
   fst (analyze_packet 5 (self running_relay) [0x01, 0x01, 0x02] client) =
     [Print (PacketHeader 0 5 None), Print (SourceAddress ''192.168.1.7'' 50000),
      Print (DataLength 3), Print (ProtocolCommand 0x01), Print (ByteOffset 258),
      Print (LedDataLength 0), Print (RawDataHeader 3), Print (RawHex [0x01, 0x01, 0x02]),
      Print (RawAscii [0x01, 0x01, 0x02])] \<and>
   sent (fst (snd (interceptor_iteration 5 False (Datagram [0x01] client) running_relay))) =
     [([0x01], (''192.168.31.182'', 23042))]"
  using relay_logging_parse [of "[0x01]" 5 "self running_relay" client running_relay
      "\<lparr> sock_open = True, sock_bound = None \<rparr>" False]
    relay_logging_parse [of "[0x04]" 5 "self running_relay" client]
    relay_logging_parse [of "[0x01, 0x01, 0x02]" 5 "self running_relay" client]
  by (simp add: running_relay_frame client_def)

text \<open>
  Claim C9. The responder's receive loop processes the first 1024 bytes of a datagram: a
  longer datagram is not seen whole, in particular a frame of 3 + 1500 or 3 + 2000 bytes.
  The relay's loop analyses and forwards the first 65536 bytes, so a datagram of at most
  65536 bytes is seen whole.
\<close>

theorem receive_buffer_sizes:
  assumes "socket b = Some so" and "sock_open so"
  shows "receive_loop_iteration now refused (Datagram datagram addr) b =
           (fst (process_packet now refused b (take 1024 datagram) addr),
            snd (process_packet now refused b (take 1024 datagram) addr), True) \<and>
         length (take 1024 datagram) \<le> 1024 \<and>
         (1024 < length datagram \<longrightarrow> take 1024 datagram \<noteq> datagram) \<and>
         (length datagram = 3 + 1500 \<or> length datagram = 3 + 2000 \<longrightarrow>
            take 1024 datagram \<noteq> datagram) \<and>
         fst (snd (interceptor_iteration now' refused' (Datagram datagram addr) fr)) =
           fst (analyze_packet now'
                  ((self fr)\<lparr>interceptor.packet_count := interceptor.packet_count (self fr) + 1\<rparr>)
                  (take 65536 datagram) addr) @
           (case forward_sock fr of
              None \<Rightarrow> [Print (PacketError AttributeError)]
            | Some fs \<Rightarrow>
                if sock_open fs \<and> \<not> refused' then
                  [SendTo (take 65536 datagram) (target_ip (self fr), target_port (self fr)),
                   Print Forwarded, Print Separator]
                else [Print (PacketError OSError)]) \<and>
         (length datagram \<le> 65536 \<longrightarrow> take 65536 datagram = datagram)"
proof -
  have "snd (snd (process_packet now refused b (take 1024 datagram) addr)) = None"
    by (rule process_packet_returns)
  then have "receive_loop_iteration now refused (Datagram datagram addr) b =
           (fst (process_packet now refused b (take 1024 datagram) addr),
            snd (process_packet now refused b (take 1024 datagram) addr), True)"
    using assms
    by (cases "process_packet now refused b (take 1024 datagram) addr")
       (simp add: receive_loop_iteration_def recvfrom_def Let_def)
  moreover have "1024 < length datagram \<Longrightarrow> take 1024 datagram \<noteq> datagram"
    by (metis length_take min.absorb2 less_imp_le_nat less_irrefl)
  ultimately show ?thesis
    by (auto simp: interceptor_iteration_events Let_def)
qed

text \<open>
  Witness for C9: a frame of 3 + 1500 bytes sent to a started responder is processed as its
  first 1024 bytes.
\<close>

theorem receive_buffer_sizes_witness:
  "socket running_board = Some \<lparr> sock_open = True, sock_bound = Some (''0.0.0.0'', 8888) \<rparr> \<and>
   length (0x02 # 0x00 # 0x00 # replicate 1500 (0xFF :: byte)) = 3 + 1500 \<and>
   length (take 1024 (0x02 # 0x00 # 0x00 # replicate 1500 (0xFF :: byte))) = 1024 \<and>
   take 1024 (0x02 # 0x00 # 0x00 # replicate 1500 (0xFF :: byte)) \<noteq>
     0x02 # 0x00 # 0x00 # replicate 1500 0xFF \<and>
   receive_loop_iteration 5 False
       (Datagram (0x02 # 0x00 # 0x00 # replicate 1500 0xFF) client) running_board =
     (fst (process_packet 5 False running_board
             (take 1024 (0x02 # 0x00 # 0x00 # replicate 1500 0xFF)) client),
      snd (process_packet 5 False running_board
             (take 1024 (0x02 # 0x00 # 0x00 # replicate 1500 0xFF)) client), True)"
  using receive_buffer_sizes
    [where b = running_board
       and so = "\<lparr> sock_open = True, sock_bound = Some (''0.0.0.0'', 8888) \<rparr>"
       and datagram = "0x02 # 0x00 # 0x00 # replicate 1500 0xFF"
       and now = 5 and refused = False and addr = client]
  by (simp add: running_board_socket)

section \<open>Claims about start and stop\<close>

lemma start_mdns_service_keeps:
  "socket (fst (start_mdns_service env b)) = socket b"
  "running (fst (start_mdns_service env b)) = running b"
  by (simp_all add: start_mdns_service_def Let_def split: option.splits)

lemma start_mdns_service_failure:
  "get_local_ip env = None \<or> get_local_ip env = Some [] \<or> service_info_fails env \<or>
     zeroconf_fails env \<or> register_fails env \<Longrightarrow>
   \<not> fst (snd (start_mdns_service env b))"
  by (auto simp: start_mdns_service_def Let_def split: option.splits)

text \<open>
  Claim C8. Whenever the socket can be created and bound and the receive thread can be
  started, \<^verbatim>\<open>start\<close> returns True with the socket bound, the responder running and
  able to reply, and the receive loop started, whatever the discovery side does: with the
  discovery library unavailable the responder reports the UDP-only mode, and when the
  publication fails (no local address, or the library raising) it reports the failure and
  goes on.
\<close>

theorem start_survives_discovery_failure:
  assumes "\<not> socket_fails env" and "\<not> setsockopt_fails env" and "\<not> bind_fails env"
    and "\<not> thread_fails env"
  shows "fst (snd (start env b)) \<and>
         running (fst (start env b)) \<and>
         socket (fst (start env b)) =
           Some \<lparr> sock_open = True, sock_bound = Some (host b, port b) \<rparr> \<and>
         accepts_send False (fst (start env b)) \<and>
         ThreadStart ''_receive_loop'' \<in> set (snd (snd (start env b))) \<and>
         (\<not> mdns_enabled b \<longrightarrow> Print MdnsDisabled \<in> set (snd (snd (start env b)))) \<and>
         (mdns_enabled b \<and>
            (get_local_ip (mdns env) = None \<or> get_local_ip (mdns env) = Some [] \<or>
             service_info_fails (mdns env) \<or> zeroconf_fails (mdns env) \<or>
             register_fails (mdns env)) \<longrightarrow>
            Print MdnsPublishFailed \<in> set (snd (snd (start env b))))"
proof -
  let ?b2 = "b\<lparr>socket := Some \<lparr> sock_open = True, sock_bound = Some (host b, port b) \<rparr>,
               running := True\<rparr>"
  obtain b' ok es where m: "start_mdns_service (mdns env) ?b2 = (b', ok, es)"
    by (cases "start_mdns_service (mdns env) ?b2") auto
  have k: "socket b' = socket ?b2" "running b' = running ?b2"
    using start_mdns_service_keeps [of "mdns env" ?b2] m by simp_all
  have f: "get_local_ip (mdns env) = None \<or> get_local_ip (mdns env) = Some [] \<or>
      service_info_fails (mdns env) \<or> zeroconf_fails (mdns env) \<or>
      register_fails (mdns env) \<Longrightarrow> \<not> ok"
    using start_mdns_service_failure [of "mdns env" ?b2] m by simp
  show ?thesis
    using assms m k f
    by (auto simp: start_def Let_def accepts_send_def)
qed

text \<open>
  Witness for C8: a responder built without the discovery library, and one whose address
  resolution fails; both start.
\<close>

theorem start_survives_discovery_failure_witness:
  "fst (snd (start \<lparr> socket_fails = False, setsockopt_fails = False, bind_fails = False,
                     mdns = \<lparr> hostname_ip = None, service_info_fails = False,
                              zeroconf_fails = False, register_fails = False \<rparr>,
                     thread_fails = False \<rparr>
               (init_board False ''0.0.0.0'' 8888 ''Virtual LED Board''))) \<and>
   Print MdnsDisabled \<in> set (snd (snd (start
                   \<lparr> socket_fails = False, setsockopt_fails = False, bind_fails = False,
                     mdns = \<lparr> hostname_ip = None, service_info_fails = False,
                              zeroconf_fails = False, register_fails = False \<rparr>,
                     thread_fails = False \<rparr>
               (init_board False ''0.0.0.0'' 8888 ''Virtual LED Board'')))) \<and>
   fst (snd (start \<lparr> socket_fails = False, setsockopt_fails = False, bind_fails = False,
                     mdns = \<lparr> hostname_ip = None, service_info_fails = False,
                              zeroconf_fails = False, register_fails = False \<rparr>,
                     thread_fails = False \<rparr>
               (init_board True ''0.0.0.0'' 8888 ''Virtual LED Board''))) \<and>
   running (fst (start \<lparr> socket_fails = False, setsockopt_fails = False, bind_fails = False,
                     mdns = \<lparr> hostname_ip = None, service_info_fails = False,
                              zeroconf_fails = False, register_fails = False \<rparr>,
                     thread_fails = False \<rparr>
               (init_board True ''0.0.0.0'' 8888 ''Virtual LED Board''))) \<and>
   Print MdnsPublishFailed \<in> set (snd (snd (start
                   \<lparr> socket_fails = False, setsockopt_fails = False, bind_fails = False,
                     mdns = \<lparr> hostname_ip = None, service_info_fails = False,
                              zeroconf_fails = False, register_fails = False \<rparr>,
                     thread_fails = False \<rparr>
               (init_board True ''0.0.0.0'' 8888 ''Virtual LED Board''))))"
  using start_survives_discovery_failure
      [of "\<lparr> socket_fails = False, setsockopt_fails = False, bind_fails = False,
             mdns = \<lparr> hostname_ip = None, service_info_fails = False,
                      zeroconf_fails = False, register_fails = False \<rparr>,
             thread_fails = False \<rparr>"
          "init_board False ''0.0.0.0'' 8888 ''Virtual LED Board''"]
    start_survives_discovery_failure
      [of "\<lparr> socket_fails = False, setsockopt_fails = False, bind_fails = False,
             mdns = \<lparr> hostname_ip = None, service_info_fails = False,
                      zeroconf_fails = False, register_fails = False \<rparr>,
             thread_fails = False \<rparr>"
          "init_board True ''0.0.0.0'' 8888 ''Virtual LED Board''"]
  by (simp add: init_board_def get_local_ip_def)

lemma stop_returns: "snd (snd (stop u c b)) = None"
  by (simp add: stop_def Let_def unregister_service_def close_zeroconf_def snd_and_then
      split: option.splits prod.splits sum.splits)

lemma stop_board:
  "running (fst (stop u c b)) = False"
  "socket (fst (stop u c b)) = map_option close_sock (socket b)"
  by (simp_all add: stop_def Let_def unregister_service_def close_zeroconf_def
      split: option.splits prod.splits sum.splits)

lemma stop_retracts:
  "zeroconf b = Some zc \<Longrightarrow> service_info b = Some si \<Longrightarrow> \<not> u \<Longrightarrow> \<not> c \<Longrightarrow>
   zeroconf (fst (stop u c b)) = Some (zc\<lparr>zc_registered := False, zc_closed := True\<rparr>)"
  by (simp add: stop_def Let_def unregister_service_def close_zeroconf_def
      split: option.splits)

text \<open>
  Counterexample for C7: after \<^verbatim>\<open>stop\<close> has been called twice on a relay that is in
  its loop, its listening socket and its forwarding socket are still open.
\<close>

theorem relay_stop_leaves_sockets_counterexample:
  "open_sockets (stop_called (stop_called running_relay)) =
     [\<lparr> sock_open = True, sock_bound = Some (''0.0.0.0'', 8889) \<rparr>,
      \<lparr> sock_open = True, sock_bound = None \<rparr>]"
  by (simp add: running_relay_frame stop_called_def interceptor_stop_def open_sockets_def)

text \<open>
  Claim C7, amended. Calling \<^verbatim>\<open>stop\<close> twice in succession raises no exception, on
  the responder and on the relay. After the responder's \<^verbatim>\<open>stop\<close> its socket, if it
  has one, is closed and it no longer runs; if a discovery handle and a service record are
  present and the discovery library does not raise, the service is unregistered and the
  handle closed. The relay's \<^verbatim>\<open>stop\<close> only clears the running flag and leaves both
  sockets as they are; they are closed by the \<^verbatim>\<open>finally\<close> block of
  \<^verbatim>\<open>start_interceptor\<close>.
\<close>

theorem stop_twice:
  "snd (snd (stop u1 c1 b)) = None \<and>
   snd (snd (stop u2 c2 (fst (stop u1 c1 b)))) = None \<and>
   \<not> running (fst (stop u1 c1 b)) \<and>
   \<not> running (fst (stop u2 c2 (fst (stop u1 c1 b)))) \<and>
   (\<forall>so. socket (fst (stop u1 c1 b)) = Some so \<longrightarrow> \<not> sock_open so) \<and>
   (\<forall>so. socket (fst (stop u2 c2 (fst (stop u1 c1 b)))) = Some so \<longrightarrow> \<not> sock_open so) \<and>
   (\<forall>zc si. zeroconf b = Some zc \<and> service_info b = Some si \<and> \<not> u1 \<and> \<not> c1 \<longrightarrow>
      zeroconf (fst (stop u1 c1 b)) = Some (zc\<lparr>zc_registered := False, zc_closed := True\<rparr>)) \<and>
   snd (snd (interceptor_stop i)) = None \<and>
   snd (snd (interceptor_stop (fst (interceptor_stop i)))) = None \<and>
   fst (interceptor_stop (fst (interceptor_stop i))) = i\<lparr>interceptor.running := False\<rparr> \<and>
   listen_sock (stop_called (stop_called fr)) = listen_sock fr \<and>
   forward_sock (stop_called (stop_called fr)) = forward_sock fr \<and>
   (listen_sock fr \<noteq> None \<longrightarrow> open_sockets (start_interceptor_finally fr) = [])"
proof -
  have "open_sockets (start_interceptor_finally fr) = []" if "listen_sock fr \<noteq> None"
    using that
    by (auto simp: open_sockets_def start_interceptor_finally_def Let_def split: option.splits)
  then show ?thesis
    by (auto simp: stop_returns stop_board stop_retracts close_sock_def
        interceptor_stop_def stop_called_def)
qed

text \<open>
  Witness for C7: a started responder stopped twice, and a relay in its loop whose
  \<^verbatim>\<open>finally\<close> block runs.
\<close>

theorem stop_twice_witness:
  "socket (fst (stop False False (fst (stop False False running_board)))) =
     Some \<lparr> sock_open = False, sock_bound = Some (''0.0.0.0'', 8888) \<rparr> \<and>
   zeroconf (fst (stop False False running_board)) =
     Some \<lparr> zc_closed = True, zc_registered = False \<rparr> \<and>
   listen_sock running_relay \<noteq> None \<and>
   open_sockets (start_interceptor_finally running_relay) = []"
  using stop_twice [of False False running_board False False "self running_relay" running_relay]
  by (simp add: running_relay_frame stop_board running_board_socket close_sock_def
      running_board_def start_def init_board_def start_mdns_service_def get_local_ip_def
      Let_def)

end
